theory Spec2Isabelle
  imports Main "HOL-Library.Word"
begin

section \<open>iotexec: the cloud-to-device command execution service\<close>

text \<open>
  A shallow embedding of \<^verbatim>\<open>src/iotexec.c\<close>: \<^verbatim>\<open>ProcessCommand\<close>,
  \<^verbatim>\<open>ProcessMessage\<close> and the loop of \<^verbatim>\<open>ProcessMessages\<close>. Every call that
  leaves the file (the iotclient library, \<^verbatim>\<open>popen\<close>, \<^verbatim>\<open>fileno\<close>,
  \<^verbatim>\<open>pclose\<close>, the diagnostic prints) is recorded, in program order, in a list of
  events that each function returns beside its result code. What the callees answer is
  a parameter of the model (the record \<open>extern\<close>).
\<close>

subsection \<open>Constants and types\<close>

text \<open>\<^verbatim>\<open>size_t\<close> on the LP64 targets of the service (the code prints it with \<^verbatim>\<open>%ld\<close>).\<close>

type_synonym size_t = "64 word"

text \<open>A \<^verbatim>\<open>FILE *\<close> that is not NULL, and the \<^verbatim>\<open>IOTCLIENT_HANDLE\<close>, as opaque numbers.\<close>

type_synonym FILE = nat
type_synonym IOTCLIENT_HANDLE = nat

definition MAX_MESSAGE_LENGTH :: size_t where
  "MAX_MESSAGE_LENGTH = 4096"

definition MAX_PENDING_MESSAGES :: int where
  "MAX_PENDING_MESSAGES = 10"

text \<open>The result codes, with the values of Linux's \<^verbatim>\<open>errno.h\<close>; \<^verbatim>\<open>EOK\<close> is 0.\<close>

definition EOK :: int where "EOK = 0"
definition EBADF :: int where "EBADF = 9"
definition EINVAL :: int where "EINVAL = 22"
definition EMSGSIZE :: int where "EMSGSIZE = 90"
definition ENOTSUP :: int where "ENOTSUP = 95"

definition INT_MAX :: int where "INT_MAX = 2147483647"

definition nl :: char where "nl = CHR 0x0A"
definition NUL :: char where "NUL = CHR 0x00"

record IOTExecState =
  hIoTClient :: IOTCLIENT_HANDLE
  verbose :: bool

text \<open>
  What the world outside the file answers during one dispatch cycle.
  \<^item> \<open>BUFSIZ\<close> is the constant of \<^verbatim>\<open>stdio.h\<close>, in the type \<^verbatim>\<open>size_t\<close> in which
    both of its uses in \<^verbatim>\<open>ProcessCommand\<close> read it (the size argument of
    \<^verbatim>\<open>snprintf\<close> and the comparison with \<^verbatim>\<open>n\<close>).
  \<^item> \<open>IOTCLIENT_Receive\<close> gives the result code and the four out-parameters
    \<^verbatim>\<open>pHeader\<close>, \<^verbatim>\<open>pBody\<close>, \<^verbatim>\<open>headerLength\<close>, \<^verbatim>\<open>bodyLength\<close>; a pointer is
    \<open>None\<close> when NULL and otherwise the bytes it points to.
  \<^item> \<open>IOTCLIENT_GetProperty header name cap\<close> is \<open>Some v\<close> when the call returns
    \<^verbatim>\<open>EOK\<close> and has stored the C string \<open>v\<close> in the destination buffer, and \<open>None\<close>
    for every other result code (the caller only tests \<^verbatim>\<open>rc == EOK\<close>).
  \<^item> \<open>IOTCLIENT_Stream handle headers fd\<close> is the result code of the call.
  \<^item> \<open>popen cmd\<close> is \<open>None\<close> for a NULL result; \<open>fileno fp\<close> is the descriptor or -1.
\<close>

record extern =
  BUFSIZ :: size_t
  IOTCLIENT_Receive ::
    "IOTCLIENT_HANDLE \<Rightarrow> int \<times> string option \<times> string option \<times> size_t \<times> size_t"
  IOTCLIENT_GetProperty :: "string \<Rightarrow> string \<Rightarrow> nat \<Rightarrow> string option"
  IOTCLIENT_Stream :: "IOTCLIENT_HANDLE \<Rightarrow> string \<Rightarrow> int \<Rightarrow> int"
  popen :: "string \<Rightarrow> FILE option"
  fileno :: "FILE \<Rightarrow> int"

text \<open>
  The arguments of a diagnostic print are recorded beside its format string, unformatted.
\<close>

datatype arg =
    ArgStr "string option"
  | ArgSize size_t
  | ArgInt int
  | ArgStrerror int

datatype event =
    Call_Receive IOTCLIENT_HANDLE
  | Call_GetProperty string string nat
  | Call_popen string
  | Call_fileno FILE
  | Call_Stream IOTCLIENT_HANDLE string int
  | Call_pclose FILE
  | Print_stdout string "arg list"
  | Print_stderr string "arg list"

subsection \<open>ProcessCommand\<close>

text \<open>The initial value of \<^verbatim>\<open>headers\<close> (line 308).\<close>

definition base_headers :: string where
  "base_headers = ''source:exec'' @ [nl] @ ''messagetype:cmdresp''"

text \<open>The text that the format \<^verbatim>\<open>"%s\ncorrelationId:%s\n"\<close> expands to.\<close>

definition correlation_format :: "string \<Rightarrow> string \<Rightarrow> string" where
  "correlation_format headers msgId = headers @ [nl] @ ''correlationId:'' @ msgId @ [nl]"

text \<open>
  \<^verbatim>\<open>snprintf\<close> returns, as an \<^verbatim>\<open>int\<close>, the length of the whole expansion whether or
  not it fitted, and a negative value when that length is not an \<^verbatim>\<open>int\<close>. The code
  stores it in \<^verbatim>\<open>size_t n\<close>.
\<close>

definition snprintf_result :: "string \<Rightarrow> int" where
  "snprintf_result s = (if int (length s) \<le> INT_MAX then int (length s) else -1)"

definition snprintf_n :: "string \<Rightarrow> size_t" where
  "snprintf_n s = word_of_int (snprintf_result s)"

text \<open>
  Lines 308 and 320 to 339 without the print: the value of \<^verbatim>\<open>headers\<close> when
  \<^verbatim>\<open>popen\<close> is reached. With \<^verbatim>\<open>0 < n < BUFSIZ\<close> the buffer holds the whole
  expansion and \<^verbatim>\<open>headers\<close> points to it.
\<close>

definition response_headers :: "extern \<Rightarrow> string option \<Rightarrow> string" where
  "response_headers ext msgId =
     (case msgId of
        None \<Rightarrow> base_headers
      | Some m \<Rightarrow>
          (let n = snprintf_n (correlation_format base_headers m)
           in if 0 < n \<and> n < BUFSIZ ext
              then correlation_format base_headers m
              else base_headers))"

definition ProcessCommand ::
  "extern \<Rightarrow> IOTExecState option \<Rightarrow> string option \<Rightarrow> string option \<Rightarrow> int \<times> event list"
where
  "ProcessCommand ext pState cmd msgId =
     (case pState of
        None \<Rightarrow> (EINVAL, [])
      | Some st \<Rightarrow>
     (case cmd of
        None \<Rightarrow> (EINVAL, [])
      | Some c \<Rightarrow>
          (let log_cmd =
                 (if verbose st
                  then [Print_stdout (''Processing Command: %s'' @ [nl]) [ArgStr (Some c)]]
                  else []);
               log_id =
                 (case msgId of
                    None \<Rightarrow> []
                  | Some m \<Rightarrow>
                      if verbose st
                      then [Print_stdout (''MessageID: %s'' @ [nl]) [ArgStr (Some m)]]
                      else []);
               headers = response_headers ext msgId
           in case popen ext c of
                Some fp \<Rightarrow>
                  (let fd = fileno ext fp
                   in if fd \<noteq> -1
                      then (IOTCLIENT_Stream ext (hIoTClient st) headers fd,
                            log_cmd @ log_id @
                            [Call_popen c, Call_fileno fp,
                             Call_Stream (hIoTClient st) headers fd, Call_pclose fp])
                      else (EBADF,
                            log_cmd @ log_id @
                            [Call_popen c, Call_fileno fp, Call_pclose fp]))
              | None \<Rightarrow> (ENOTSUP, log_cmd @ log_id @ [Call_popen c]))))"

subsection \<open>ProcessMessage\<close>

text \<open>The C string that starts at a pointer: the bytes before the first NUL.\<close>

definition c_str :: "string \<Rightarrow> string" where
  "c_str bytes = takeWhile (\<lambda>c. c \<noteq> NUL) bytes"

text \<open>
  \<^verbatim>\<open>pBody[bodyLength] = '\0'\<close> followed by reading \<^verbatim>\<open>pBody\<close> as a C string: the
  command is the first \<^verbatim>\<open>bodyLength\<close> bytes of the body, up to a NUL among them.
\<close>

definition nul_terminate :: "string \<Rightarrow> size_t \<Rightarrow> string" where
  "nul_terminate body bodyLength = c_str (take (unat bodyLength) body)"

text \<open>
  Lines 239 to 251. \<^verbatim>\<open>rxMsgId\<close> is an automatic array that is not initialised: on
  entry it holds whatever the previous activation left in that stack slot, which the
  model takes as the argument \<open>stale\<close> and returns after the call. The result is the
  value of \<^verbatim>\<open>msgId\<close>, the content of \<^verbatim>\<open>rxMsgId\<close> and the events.
\<close>

definition extract_messageId ::
  "extern \<Rightarrow> string option \<Rightarrow> string \<Rightarrow> string option \<times> string \<times> event list"
where
  "extract_messageId ext pHeader stale =
     (case pHeader of
        None \<Rightarrow> (None, stale, [])
      | Some h \<Rightarrow>
          (case IOTCLIENT_GetProperty ext h ''messageId'' 64 of
             Some v \<Rightarrow>
               (Some v, v,
                [Call_GetProperty h ''messageId'' 64,
                 Print_stdout (''messageId = %s'' @ [nl]) [ArgStr (Some v)]])
           | None \<Rightarrow> (None, stale, [Call_GetProperty h ''messageId'' 64])))"

text \<open>The three unconditional prints of lines 227 to 237.\<close>

definition received_prints ::
  "string option \<Rightarrow> string option \<Rightarrow> size_t \<Rightarrow> size_t \<Rightarrow> event list"
where
  "received_prints pHeader pBody headerLength bodyLength =
     [Print_stdout (''ProcessMessage!!'' @ [nl]) [],
      Print_stdout (''headerLength = %ld'' @ [nl]) [ArgSize headerLength],
      Print_stdout (''header (%ld): %.*s'' @ [nl])
        [ArgSize headerLength, ArgInt (sint (ucast headerLength :: 32 word)),
         ArgStr pHeader],
      Print_stdout (''body (%ld): %.*s'' @ [nl])
        [ArgSize bodyLength, ArgInt (sint (ucast bodyLength :: 32 word)),
         ArgStr pBody]]"

text \<open>
  The body of \<^verbatim>\<open>if( result == EOK )\<close>, lines 227 to 265: the prints, the
  extraction of the message identifier, then the test of the body pointer and of the
  total size, on which the body is either run as a command or refused.
\<close>

definition received_message ::
  "extern \<Rightarrow> IOTExecState option \<Rightarrow> string \<Rightarrow>
   string option \<Rightarrow> string option \<Rightarrow> size_t \<Rightarrow> size_t \<Rightarrow> int \<times> string \<times> event list"
where
  "received_message ext pState stale pHeader pBody headerLength bodyLength =
     (case extract_messageId ext pHeader stale of
        (msgId, rxMsgId, id_events) \<Rightarrow>
          (case (case pBody of
                   None \<Rightarrow> (EMSGSIZE, [])
                 | Some body \<Rightarrow>
                     if headerLength + bodyLength < MAX_MESSAGE_LENGTH
                     then ProcessCommand ext pState
                            (Some (nul_terminate body bodyLength)) msgId
                     else (EMSGSIZE, [])) of
             (result, cmd_events) \<Rightarrow>
               (result, rxMsgId,
                received_prints pHeader pBody headerLength bodyLength
                @ id_events @ cmd_events)))"

text \<open>Lines 268 to 271: the result is reported when it is not \<^verbatim>\<open>EOK\<close> and the service is verbose.\<close>

definition report_error :: "IOTExecState \<Rightarrow> int \<Rightarrow> event list" where
  "report_error st result =
     (if verbose st \<and> result \<noteq> EOK
      then [Print_stderr (''ProcessMessage: %s'' @ [nl]) [ArgStrerror result]]
      else [])"

definition ProcessMessage ::
  "extern \<Rightarrow> IOTExecState option \<Rightarrow> string \<Rightarrow> int \<times> string \<times> event list"
where
  "ProcessMessage ext pState stale =
     (case pState of
        None \<Rightarrow> (EINVAL, stale, [])
      | Some st \<Rightarrow>
          (case IOTCLIENT_Receive ext (hIoTClient st) of
             (rx, pHeader, pBody, headerLength, bodyLength) \<Rightarrow>
               (case (if rx = EOK
                      then received_message ext pState stale
                             pHeader pBody headerLength bodyLength
                      else (rx, stale, [])) of
                  (result, rxMsgId, events) \<Rightarrow>
                    (result, rxMsgId,
                     Call_Receive (hIoTClient st) # events @ report_error st result))))"

subsection \<open>ProcessMessages\<close>

text \<open>
  \<^verbatim>\<open>while( true ) { result = ProcessMessage(pState); }\<close> has no exit. The loop is
  run on fuel: \<open>cycles k w i st stale\<close> performs the iterations \<open>i, \<dots>, i + k - 1\<close>, the
  world of iteration \<open>j\<close> being \<open>w j\<close>, and returns the events of these iterations.
  \<open>ProcessMessages\<close> returns \<open>None\<close> as its result while the loop has not returned. Each
  external call is taken to return; a receive that blocks for ever or a command that
  hangs is outside the model.
\<close>

fun cycles ::
  "nat \<Rightarrow> (nat \<Rightarrow> extern) \<Rightarrow> nat \<Rightarrow> IOTExecState \<Rightarrow> string \<Rightarrow> event list"
where
  "cycles 0 w i st stale = []"
| "cycles (Suc k) w i st stale =
     (case ProcessMessage (w i) (Some st) stale of
        (result, rxMsgId, events) \<Rightarrow> events @ cycles k w (Suc i) st rxMsgId)"

definition ProcessMessages ::
  "nat \<Rightarrow> (nat \<Rightarrow> extern) \<Rightarrow> IOTExecState option \<Rightarrow> string \<Rightarrow> int option \<times> event list"
where
  "ProcessMessages fuel w pState stale =
     (case pState of
        None \<Rightarrow> (Some EINVAL, [])
      | Some st \<Rightarrow> (None, cycles fuel w 0 st stale))"

subsection \<open>Reading a list of events\<close>

fun popen_calls :: "event list \<Rightarrow> string list" where
  "popen_calls [] = []"
| "popen_calls (Call_popen c # es) = c # popen_calls es"
| "popen_calls (e # es) = popen_calls es"

fun Stream_headers :: "event list \<Rightarrow> string list" where
  "Stream_headers [] = []"
| "Stream_headers (Call_Stream h hs fd # es) = hs # Stream_headers es"
| "Stream_headers (e # es) = Stream_headers es"

fun Receive_calls :: "event list \<Rightarrow> nat" where
  "Receive_calls [] = 0"
| "Receive_calls (Call_Receive h # es) = Suc (Receive_calls es)"
| "Receive_calls (e # es) = Receive_calls es"

fun GetProperty_calls :: "event list \<Rightarrow> string list" where
  "GetProperty_calls [] = []"
| "GetProperty_calls (Call_GetProperty h name cap # es) = h # GetProperty_calls es"
| "GetProperty_calls (e # es) = GetProperty_calls es"

text \<open>The calls of an event list, the diagnostic prints left out.\<close>

fun is_call :: "event \<Rightarrow> bool" where
  "is_call (Print_stdout f as) = False"
| "is_call (Print_stderr f as) = False"
| "is_call e = True"

text \<open>The message identifier that the message of a cycle carries itself, if any.\<close>

definition own_messageId :: "extern \<Rightarrow> IOTExecState \<Rightarrow> string option" where
  "own_messageId ext st =
     (case IOTCLIENT_Receive ext (hIoTClient st) of
        (rx, pHeader, pBody, headerLength, bodyLength) \<Rightarrow>
          (case pHeader of
             None \<Rightarrow> None
           | Some h \<Rightarrow> IOTCLIENT_GetProperty ext h ''messageId'' 64))"

subsection \<open>A sample world\<close>

text \<open>
  One concrete set of answers, on which the theorems below are exercised: a transport
  that delivers the header \<^verbatim>\<open>messageId:abc123\<close> with the body \<^verbatim>\<open>date\<close>, a
  property reader that knows this one header, a \<^verbatim>\<open>popen\<close> that starts every command
  but \<^verbatim>\<open>/nonexistent\<close>, and the \<open>BUFSIZ\<close> of glibc.
\<close>

definition sample_extern :: extern where
  "sample_extern =
     \<lparr> BUFSIZ = 8192,
       IOTCLIENT_Receive = (\<lambda>h. (0, Some ''messageId:abc123'', Some ''date'', 16, 4)),
       IOTCLIENT_GetProperty =
         (\<lambda>header name cap.
            if header = ''messageId:abc123'' \<and> name = ''messageId'' \<and> 6 < cap
            then Some ''abc123'' else None),
       IOTCLIENT_Stream = (\<lambda>h headers fd. 0),
       popen = (\<lambda>c. if c = ''/nonexistent'' then None else Some 1),
       fileno = (\<lambda>fp. 5) \<rparr>"

definition sample_state :: IOTExecState where
  "sample_state = \<lparr> hIoTClient = 7, verbose = True \<rparr>"

text \<open>Scenario A of the specification: the body \<^verbatim>\<open>echo hello\<close> and no header.\<close>

definition scenario_A :: extern where
  "scenario_A =
     sample_extern \<lparr> IOTCLIENT_Receive := (\<lambda>h. (0, None, Some ''echo hello'', 0, 10)) \<rparr>"

text \<open>Scenario D of the specification: a header of 10 bytes and a body of 4090.\<close>

definition scenario_D :: extern where
  "scenario_D =
     sample_extern \<lparr> IOTCLIENT_Receive :=
       (\<lambda>h. (0, Some ''source:iot'', Some (replicate 4090 CHR ''x''), 10, 4090)) \<rparr>"

text \<open>A message of 16 + 4090 bytes whose header holds a \<^verbatim>\<open>messageId\<close>.\<close>

definition oversized_with_id :: extern where
  "oversized_with_id =
     sample_extern \<lparr> IOTCLIENT_Receive :=
       (\<lambda>h. (0, Some ''messageId:abc123'', Some (replicate 4090 CHR ''x''), 16, 4090)) \<rparr>"

text \<open>A successful receive with a NULL body pointer and lengths well below the bound.\<close>

definition null_body :: extern where
  "null_body =
     sample_extern \<lparr> IOTCLIENT_Receive := (\<lambda>h. (0, Some ''messageId:abc123'', None, 16, 0)) \<rparr>"

text \<open>A platform with the smallest \<^verbatim>\<open>BUFSIZ\<close> of ISO C, and an identifier of 250 characters.\<close>

definition small_buffer :: extern where
  "small_buffer = sample_extern \<lparr> BUFSIZ := 256 \<rparr>"

text \<open>A run of two cycles: scenario B, then scenario A.\<close>

definition B_then_A :: "nat \<Rightarrow> extern" where
  "B_then_A i = (if i = 0 then sample_extern else scenario_A)"

text \<open>A run whose first message is refused with \<^verbatim>\<open>EMSGSIZE\<close> and whose second succeeds.\<close>

definition D_then_A :: "nat \<Rightarrow> extern" where
  "D_then_A i = (if i = 0 then scenario_D else scenario_A)"

section \<open>The functions, path by path\<close>

lemma popen_calls_append [simp]: "popen_calls (xs @ ys) = popen_calls xs @ popen_calls ys"
  by (induction xs rule: popen_calls.induct) simp_all

lemma Stream_headers_append [simp]:
  "Stream_headers (xs @ ys) = Stream_headers xs @ Stream_headers ys"
  by (induction xs rule: Stream_headers.induct) simp_all

lemma Receive_calls_append [simp]:
  "Receive_calls (xs @ ys) = Receive_calls xs + Receive_calls ys"
  by (induction xs rule: Receive_calls.induct) simp_all

lemma GetProperty_calls_append [simp]:
  "GetProperty_calls (xs @ ys) = GetProperty_calls xs @ GetProperty_calls ys"
  by (induction xs rule: GetProperty_calls.induct) simp_all

lemma popen_calls_received_prints [simp]: "popen_calls (received_prints a b c d) = []"
  by (simp add: received_prints_def)

lemma Stream_headers_received_prints [simp]: "Stream_headers (received_prints a b c d) = []"
  by (simp add: received_prints_def)

lemma Receive_calls_received_prints [simp]: "Receive_calls (received_prints a b c d) = 0"
  by (simp add: received_prints_def)

lemma GetProperty_calls_received_prints [simp]:
  "GetProperty_calls (received_prints a b c d) = []"
  by (simp add: received_prints_def)

lemma filter_is_call_received_prints [simp]:
  "filter is_call (received_prints a b c d) = []"
  by (simp add: received_prints_def)

lemma popen_calls_report_error [simp]: "popen_calls (report_error st r) = []"
  by (simp add: report_error_def)

lemma Stream_headers_report_error [simp]: "Stream_headers (report_error st r) = []"
  by (simp add: report_error_def)

lemma Receive_calls_report_error [simp]: "Receive_calls (report_error st r) = 0"
  by (simp add: report_error_def)

lemma GetProperty_calls_report_error [simp]: "GetProperty_calls (report_error st r) = []"
  by (simp add: report_error_def)

subsection \<open>Extraction of the message identifier\<close>

lemma extract_messageId_msgId:
  "fst (extract_messageId ext pHeader stale) =
     (case pHeader of
        None \<Rightarrow> None
      | Some h \<Rightarrow> IOTCLIENT_GetProperty ext h ''messageId'' 64)"
  by (simp add: extract_messageId_def split: option.splits)

lemma popen_calls_extract [simp]:
  "popen_calls (snd (snd (extract_messageId ext pHeader stale))) = []"
  by (simp add: extract_messageId_def split: option.splits)

lemma Stream_headers_extract [simp]:
  "Stream_headers (snd (snd (extract_messageId ext pHeader stale))) = []"
  by (simp add: extract_messageId_def split: option.splits)

lemma Receive_calls_extract [simp]:
  "Receive_calls (snd (snd (extract_messageId ext pHeader stale))) = 0"
  by (simp add: extract_messageId_def split: option.splits)

lemma GetProperty_calls_extract:
  "GetProperty_calls (snd (snd (extract_messageId ext pHeader stale))) =
     (case pHeader of None \<Rightarrow> [] | Some h \<Rightarrow> [h])"
  by (simp add: extract_messageId_def split: option.splits)

lemma extract_events_stale:
  "snd (snd (extract_messageId ext pHeader stale)) =
   snd (snd (extract_messageId ext pHeader stale'))"
  by (simp add: extract_messageId_def split: option.splits)

subsection \<open>ProcessCommand\<close>

lemma ProcessCommand_result:
  "fst (ProcessCommand ext (Some st) (Some c) msgId) =
     (case popen ext c of
        None \<Rightarrow> ENOTSUP
      | Some fp \<Rightarrow>
          if fileno ext fp = -1 then EBADF
          else IOTCLIENT_Stream ext (hIoTClient st) (response_headers ext msgId)
                 (fileno ext fp))"
  by (simp add: ProcessCommand_def Let_def split: option.splits)

lemma ProcessCommand_Stream_headers:
  "Stream_headers (snd (ProcessCommand ext (Some st) (Some c) msgId)) =
     (case popen ext c of
        None \<Rightarrow> []
      | Some fp \<Rightarrow> if fileno ext fp = -1 then [] else [response_headers ext msgId])"
  by (simp add: ProcessCommand_def Let_def split: option.splits)

lemma ProcessCommand_popen_calls:
  "popen_calls (snd (ProcessCommand ext (Some st) (Some c) msgId)) = [c]"
  by (simp add: ProcessCommand_def Let_def split: option.splits)

lemma ProcessCommand_Receive_calls [simp]:
  "Receive_calls (snd (ProcessCommand ext pState cmd msgId)) = 0"
  by (simp add: ProcessCommand_def Let_def split: option.splits)

lemma ProcessCommand_calls:
  "filter is_call (snd (ProcessCommand ext (Some st) (Some c) msgId)) =
     (case popen ext c of
        None \<Rightarrow> [Call_popen c]
      | Some fp \<Rightarrow>
          if fileno ext fp = -1 then [Call_popen c, Call_fileno fp, Call_pclose fp]
          else [Call_popen c, Call_fileno fp,
                Call_Stream (hIoTClient st) (response_headers ext msgId) (fileno ext fp),
                Call_pclose fp])"
  by (simp add: ProcessCommand_def Let_def split: option.splits)

subsection \<open>The length that snprintf reports\<close>

lemma length_correlation_format:
  "length (correlation_format base_headers m) = 47 + length m"
  by (simp add: correlation_format_def base_headers_def)

lemma snprintf_n_small:
  assumes "length s < 2 ^ 31"
  shows "unat (snprintf_n s) = length s"
proof -
  have "int (length s) \<le> INT_MAX" using assms by (simp add: INT_MAX_def)
  then have "snprintf_n s = of_nat (length s)"
    by (simp add: snprintf_n_def snprintf_result_def)
  moreover have "length s < 2 ^ LENGTH(64)" using assms by simp
  ultimately show ?thesis by (simp add: unat_of_nat)
qed

lemma snprintf_n_large:
  assumes "\<not> length s < 2 ^ 31"
  shows "snprintf_n s = - 1"
proof -
  have "\<not> int (length s) \<le> INT_MAX" using assms by (simp add: INT_MAX_def)
  then show ?thesis by (simp add: snprintf_n_def snprintf_result_def)
qed

text \<open>
  A message identifier that came out of the 64 bytes of \<^verbatim>\<open>rxMsgId\<close> is at most 63
  characters long, and ISO C gives \<^verbatim>\<open>BUFSIZ\<close> at least 256: the expansion fits.
\<close>

lemma response_headers_fits:
  assumes "length m < 64" and "256 \<le> BUFSIZ ext"
  shows "response_headers ext (Some m) = correlation_format base_headers m"
proof -
  let ?s = "correlation_format base_headers m"
  have len: "length ?s = 47 + length m" by (rule length_correlation_format)
  then have small: "length ?s < 2 ^ 31" using assms(1) by simp
  have u: "unat (snprintf_n ?s) = 47 + length m"
    using snprintf_n_small [OF small] len by simp
  have "unat (256 :: size_t) \<le> unat (BUFSIZ ext)"
    using assms(2) by (simp add: word_le_nat_alt)
  then have "unat (snprintf_n ?s) < unat (BUFSIZ ext)" using u assms(1) by simp
  then have lt: "snprintf_n ?s < BUFSIZ ext" by (simp add: word_less_nat_alt)
  have "unat (snprintf_n ?s) \<noteq> 0" using u by simp
  then have "snprintf_n ?s \<noteq> 0" by auto
  then have "0 < snprintf_n ?s" by (simp add: word_gt_0)
  with lt show ?thesis by (simp add: response_headers_def Let_def)
qed

lemma response_headers_overflow:
  assumes "unat (BUFSIZ ext) \<le> length (correlation_format base_headers m)"
  shows "response_headers ext (Some m) = base_headers"
proof -
  let ?s = "correlation_format base_headers m"
  have "\<not> snprintf_n ?s < BUFSIZ ext"
  proof (cases "length ?s < 2 ^ 31")
    case True
    then have "unat (snprintf_n ?s) = length ?s" by (rule snprintf_n_small)
    with assms show ?thesis by (simp add: word_less_nat_alt)
  next
    case False
    then have "snprintf_n ?s = - 1" by (rule snprintf_n_large)
    then show ?thesis by simp
  qed
  then show ?thesis by (simp add: response_headers_def Let_def)
qed

text \<open>
  The test \<^verbatim>\<open>( n > 0 ) && ( n < BUFSIZ )\<close> in terms of the identifier: the expansion
  has 47 characters beside the identifier, and it is taken exactly when that length is
  an \<^verbatim>\<open>int\<close> and is below \<^verbatim>\<open>BUFSIZ\<close>.
\<close>

lemma response_headers_Some:
  "response_headers ext (Some m) =
     (if 47 + length m < unat (BUFSIZ ext) \<and> 47 + length m < 2 ^ 31
      then correlation_format base_headers m
      else base_headers)"
proof -
  let ?s = "correlation_format base_headers m"
  have len: "length ?s = 47 + length m" by (rule length_correlation_format)
  show ?thesis
  proof (cases "length ?s < 2 ^ 31")
    case True
    then have u: "unat (snprintf_n ?s) = 47 + length m"
      using snprintf_n_small [of ?s] len by simp
    then have "unat (snprintf_n ?s) \<noteq> 0" by simp
    then have "snprintf_n ?s \<noteq> 0" by auto
    then have pos: "0 < snprintf_n ?s" by (simp add: word_gt_0)
    have "(snprintf_n ?s < BUFSIZ ext) = (47 + length m < unat (BUFSIZ ext))"
      using u by (simp add: word_less_nat_alt)
    with pos True len show ?thesis by (simp add: response_headers_def Let_def)
  next
    case False
    then have "snprintf_n ?s = - 1" by (rule snprintf_n_large)
    then have "\<not> snprintf_n ?s < BUFSIZ ext" by simp
    with False len show ?thesis by (simp add: response_headers_def Let_def)
  qed
qed

lemma response_headers_cases:
  "response_headers ext msgId = base_headers
   \<or> (\<exists>m. msgId = Some m \<and> response_headers ext msgId = correlation_format base_headers m)"
  by (simp add: response_headers_def Let_def split: option.splits)

subsection \<open>ProcessMessage\<close>

text \<open>
  The code adds the two lengths in \<^verbatim>\<open>size_t\<close>. They are the sizes of two buffers in
  one address space, so the sum does not wrap, and the test is the test on the exact sum.
\<close>

lemma size_sum_exact:
  fixes headerLength bodyLength :: size_t
  assumes "unat headerLength + unat bodyLength < 2 ^ 64"
  shows "(MAX_MESSAGE_LENGTH \<le> headerLength + bodyLength) =
         (4096 \<le> unat headerLength + unat bodyLength)"
proof -
  have "unat (headerLength + bodyLength) = unat headerLength + unat bodyLength"
    using assms by (simp add: unat_word_ariths)
  then show ?thesis
    by (simp add: word_le_nat_alt MAX_MESSAGE_LENGTH_def)
qed

lemma received_message_refused:
  assumes "pBody = None \<or> \<not> headerLength + bodyLength < MAX_MESSAGE_LENGTH"
  shows "received_message ext pState stale pHeader pBody headerLength bodyLength =
           (EMSGSIZE, fst (snd (extract_messageId ext pHeader stale)),
            received_prints pHeader pBody headerLength bodyLength
            @ snd (snd (extract_messageId ext pHeader stale)))"
  using assms
  by (cases "extract_messageId ext pHeader stale")
     (auto simp: received_message_def split: option.splits)

lemma received_message_run:
  assumes "pBody = Some body" and "headerLength + bodyLength < MAX_MESSAGE_LENGTH"
  shows "received_message ext pState stale pHeader pBody headerLength bodyLength =
           (fst (ProcessCommand ext pState (Some (nul_terminate body bodyLength))
                   (fst (extract_messageId ext pHeader stale))),
            fst (snd (extract_messageId ext pHeader stale)),
            received_prints pHeader pBody headerLength bodyLength
            @ snd (snd (extract_messageId ext pHeader stale))
            @ snd (ProcessCommand ext pState (Some (nul_terminate body bodyLength))
                   (fst (extract_messageId ext pHeader stale))))"
  using assms
  by (cases "extract_messageId ext pHeader stale")
     (auto simp: received_message_def split: option.splits prod.splits)

lemma ProcessMessage_received:
  assumes "IOTCLIENT_Receive ext (hIoTClient st) =
             (EOK, pHeader, pBody, headerLength, bodyLength)"
  shows "ProcessMessage ext (Some st) stale =
     (fst (received_message ext (Some st) stale pHeader pBody headerLength bodyLength),
      fst (snd (received_message ext (Some st) stale pHeader pBody headerLength bodyLength)),
      Call_Receive (hIoTClient st) #
      snd (snd (received_message ext (Some st) stale pHeader pBody headerLength bodyLength))
      @ report_error st
          (fst (received_message ext (Some st) stale pHeader pBody headerLength bodyLength)))"
  using assms
  by (simp add: ProcessMessage_def split: prod.splits)

lemma ProcessMessage_receive_fails:
  assumes "IOTCLIENT_Receive ext (hIoTClient st) =
             (rx, pHeader, pBody, headerLength, bodyLength)"
    and "rx \<noteq> EOK"
  shows "ProcessMessage ext (Some st) stale =
           (rx, stale, Call_Receive (hIoTClient st) # report_error st rx)"
  using assms by (simp add: ProcessMessage_def)

text \<open>Every cycle calls \<^verbatim>\<open>IOTCLIENT_Receive\<close> once, whatever comes of it.\<close>

lemma received_message_Receive_calls [simp]:
  "Receive_calls (snd (snd (received_message ext pState stale pHeader pBody hl bl))) = 0"
  by (cases "extract_messageId ext pHeader stale")
     (auto simp: received_message_def split: option.splits prod.splits
           dest: arg_cong [where f = "\<lambda>x. Receive_calls (snd (snd x))"]
                 arg_cong [where f = "\<lambda>x. Receive_calls (snd x)"])

lemma ProcessMessage_Receive_calls:
  "Receive_calls (snd (snd (ProcessMessage ext (Some st) stale))) = 1"
proof (cases "IOTCLIENT_Receive ext (hIoTClient st)")
  case (fields rx pHeader pBody headerLength bodyLength)
  show ?thesis
  proof (cases "rx = EOK")
    case True
    with fields show ?thesis by (simp add: ProcessMessage_received)
  next
    case False
    with fields show ?thesis by (simp add: ProcessMessage_receive_fails)
  qed
qed

text \<open>
  The content that \<^verbatim>\<open>rxMsgId\<close> had on entry reaches neither the result nor any
  event of the cycle: \<^verbatim>\<open>msgId\<close> starts as NULL and points to the array only after
  \<^verbatim>\<open>IOTCLIENT_GetProperty\<close> has filled it.
\<close>

lemma received_message_stale:
  "fst (received_message ext pState stale pHeader pBody hl bl) =
   fst (received_message ext pState stale' pHeader pBody hl bl)
   \<and> snd (snd (received_message ext pState stale pHeader pBody hl bl)) =
     snd (snd (received_message ext pState stale' pHeader pBody hl bl))"
proof (cases "pBody = None \<or> \<not> hl + bl < MAX_MESSAGE_LENGTH")
  case True
  then show ?thesis
    using extract_events_stale [of ext pHeader stale stale']
    by (simp add: received_message_refused)
next
  case False
  then obtain body where "pBody = Some body" and "hl + bl < MAX_MESSAGE_LENGTH"
    by auto
  then show ?thesis
    using extract_events_stale [of ext pHeader stale stale']
    by (simp add: received_message_run extract_messageId_msgId)
qed

lemma ProcessMessage_stale:
  "fst (ProcessMessage ext pState stale) = fst (ProcessMessage ext pState stale')
   \<and> snd (snd (ProcessMessage ext pState stale)) =
     snd (snd (ProcessMessage ext pState stale'))"
proof (cases pState)
  case None
  then show ?thesis by (simp add: ProcessMessage_def)
next
  case (Some st)
  show ?thesis
  proof (cases "IOTCLIENT_Receive ext (hIoTClient st)")
    case (fields rx pHeader pBody headerLength bodyLength)
    show ?thesis
    proof (cases "rx = EOK")
      case True
      with fields Some show ?thesis
        using received_message_stale [of ext "Some st" stale pHeader pBody
                headerLength bodyLength stale']
        by (simp add: ProcessMessage_received)
    next
      case False
      with fields Some show ?thesis by (simp add: ProcessMessage_receive_fails)
    qed
  qed
qed

lemma cycles_Receive_calls: "Receive_calls (cycles k w i st stale) = k"
proof (induction k arbitrary: i stale)
  case 0
  show ?case by simp
next
  case (Suc k)
  obtain result rxMsgId events
    where pm: "ProcessMessage (w i) (Some st) stale = (result, rxMsgId, events)"
    by (cases "ProcessMessage (w i) (Some st) stale") auto
  have "Receive_calls events = 1"
    using ProcessMessage_Receive_calls [of "w i" st stale] pm by simp
  with pm Suc.IH show ?case by simp
qed

subsection \<open>The loop\<close>

lemma ProcessMessage_Stream_headers_own:
  "Stream_headers (snd (snd (ProcessMessage ext (Some st) stale))) = []
   \<or> Stream_headers (snd (snd (ProcessMessage ext (Some st) stale))) =
       [response_headers ext (own_messageId ext st)]"
proof (cases "IOTCLIENT_Receive ext (hIoTClient st)")
  case (fields rx pHeader pBody headerLength bodyLength)
  show ?thesis
  proof (cases "rx = EOK")
    case False
    with fields show ?thesis by (simp add: ProcessMessage_receive_fails)
  next
    case True
    with fields have rx: "IOTCLIENT_Receive ext (hIoTClient st) =
        (EOK, pHeader, pBody, headerLength, bodyLength)"
      by simp
    show ?thesis
    proof (cases "pBody = None \<or> \<not> headerLength + bodyLength < MAX_MESSAGE_LENGTH")
      case True
      then show ?thesis
        by (simp add: ProcessMessage_received [OF rx] received_message_refused)
    next
      case False
      then obtain body where b: "pBody = Some body"
        and size: "headerLength + bodyLength < MAX_MESSAGE_LENGTH"
        by auto
      have "fst (extract_messageId ext pHeader stale) = own_messageId ext st"
        by (simp add: extract_messageId_msgId own_messageId_def rx)
      then show ?thesis
        by (simp add: ProcessMessage_received [OF rx] received_message_run [OF b size]
              ProcessCommand_Stream_headers split: option.splits)
    qed
  qed
qed

lemma ProcessMessage_hd:
  "hd (snd (snd (ProcessMessage ext (Some st) stale))) = Call_Receive (hIoTClient st)"
  by (simp add: ProcessMessage_def split: prod.splits)

lemma cycles_Suc:
  "cycles (Suc k) w i st stale =
     snd (snd (ProcessMessage (w i) (Some st) stale))
     @ cycles k w (Suc i) st (fst (snd (ProcessMessage (w i) (Some st) stale)))"
  by (simp split: prod.splits)

lemma cycles_snoc:
  "cycles (Suc k) w i st stale =
     cycles k w i st stale @ snd (snd (ProcessMessage (w (i + k)) (Some st) []))"
proof (induction k arbitrary: i stale)
  case 0
  have "snd (snd (ProcessMessage (w i) (Some st) stale)) =
        snd (snd (ProcessMessage (w i) (Some st) []))"
    using ProcessMessage_stale [of "w i" "Some st" stale "[]"] by simp
  then show ?case by (simp only: cycles_Suc cycles.simps) simp
next
  case (Suc k)
  let ?events = "snd (snd (ProcessMessage (w i) (Some st) stale))"
  let ?rxMsgId = "fst (snd (ProcessMessage (w i) (Some st) stale))"
  have "cycles (Suc (Suc k)) w i st stale = ?events @ cycles (Suc k) w (Suc i) st ?rxMsgId"
    by (rule cycles_Suc)
  also have "\<dots> = ?events @ cycles k w (Suc i) st ?rxMsgId
      @ snd (snd (ProcessMessage (w (Suc i + k)) (Some st) []))"
    by (simp only: Suc.IH [of "Suc i" ?rxMsgId])
  also have "\<dots> = cycles (Suc k) w i st stale
      @ snd (snd (ProcessMessage (w (i + Suc k)) (Some st) []))"
    by (simp only: cycles_Suc [of k w i st stale]) simp
  finally show ?case .
qed

section \<open>Properties\<close>

text \<open>
  C1. A received message with \<^verbatim>\<open>headerLength + bodyLength >= MAX_MESSAGE_LENGTH\<close> (the
  sum as the code computes it, in \<^verbatim>\<open>size_t\<close>) is never executed: \<^verbatim>\<open>ProcessMessage\<close>
  returns \<^verbatim>\<open>EMSGSIZE\<close>, and the cycle calls neither \<^verbatim>\<open>popen\<close> nor
  \<^verbatim>\<open>IOTCLIENT_Stream\<close>.
\<close>

theorem ProcessMessage_too_large:
  assumes "IOTCLIENT_Receive ext (hIoTClient st) =
             (EOK, pHeader, pBody, headerLength, bodyLength)"
    and "MAX_MESSAGE_LENGTH \<le> headerLength + bodyLength"
  shows "fst (ProcessMessage ext (Some st) stale) = EMSGSIZE
       \<and> popen_calls (snd (snd (ProcessMessage ext (Some st) stale))) = []
       \<and> Stream_headers (snd (snd (ProcessMessage ext (Some st) stale))) = []"
proof -
  from assms(2) have "\<not> headerLength + bodyLength < MAX_MESSAGE_LENGTH"
    by (simp add: not_less)
  then show ?thesis
    by (simp add: ProcessMessage_received [OF assms(1)] received_message_refused)
qed

theorem ProcessMessage_too_large_witness:
  "IOTCLIENT_Receive scenario_D (hIoTClient sample_state) =
     (EOK, Some ''source:iot'', Some (replicate 4090 CHR ''x''), 10, 4090)
   \<and> MAX_MESSAGE_LENGTH \<le> (10 :: size_t) + 4090
   \<and> fst (ProcessMessage scenario_D (Some sample_state) []) = 90
   \<and> popen_calls (snd (snd (ProcessMessage scenario_D (Some sample_state) []))) = []
   \<and> Stream_headers (snd (snd (ProcessMessage scenario_D (Some sample_state) []))) = []"
proof -
  have rx: "IOTCLIENT_Receive scenario_D (hIoTClient sample_state) =
     (EOK, Some ''source:iot'', Some (replicate 4090 CHR ''x''), 10, 4090)"
    by (simp add: scenario_D_def sample_extern_def EOK_def)
  have big: "MAX_MESSAGE_LENGTH \<le> (10 :: size_t) + 4090"
    by (simp add: MAX_MESSAGE_LENGTH_def)
  show ?thesis
    using rx big ProcessMessage_too_large [OF rx big, of "[]"]
    by (simp add: EMSGSIZE_def)
qed

text \<open>
  C2. When the header of a received message holds a \<^verbatim>\<open>messageId\<close> whose value
  \<open>X\<close> is shorter than 64 characters and the extraction succeeds, the headers given to
  \<^verbatim>\<open>IOTCLIENT_Stream\<close> are the two base lines followed by the line
  \<^verbatim>\<open>correlationId:X\<close>. The message is one that reaches the call: it passes the size
  test and its command starts with a descriptor. \<^verbatim>\<open>BUFSIZ\<close> is at least the 256 of
  ISO C.
\<close>

theorem ProcessMessage_correlationId:
  assumes rx: "IOTCLIENT_Receive ext (hIoTClient st) =
                 (EOK, Some header, Some body, headerLength, bodyLength)"
    and size: "headerLength + bodyLength < MAX_MESSAGE_LENGTH"
    and gp: "IOTCLIENT_GetProperty ext header ''messageId'' 64 = Some X"
    and len: "length X < 64"
    and buf: "256 \<le> BUFSIZ ext"
    and po: "popen ext (nul_terminate body bodyLength) = Some fp"
    and fd: "fileno ext fp \<noteq> -1"
  shows "Stream_headers (snd (snd (ProcessMessage ext (Some st) stale))) =
           [''source:exec'' @ [nl] @ ''messagetype:cmdresp'' @ [nl]
            @ ''correlationId:'' @ X @ [nl]]"
proof -
  have "response_headers ext (Some X) = correlation_format base_headers X"
    using len buf by (rule response_headers_fits)
  then show ?thesis
    using gp po fd
    by (simp add: ProcessMessage_received [OF rx] received_message_run [OF refl size]
          extract_messageId_msgId ProcessCommand_Stream_headers
          correlation_format_def base_headers_def)
qed

text \<open>Scenario B of the specification: the header \<^verbatim>\<open>messageId:abc123\<close>, the body \<^verbatim>\<open>date\<close>.\<close>

theorem ProcessMessage_correlationId_witness:
  "IOTCLIENT_Receive sample_extern (hIoTClient sample_state) =
     (EOK, Some ''messageId:abc123'', Some ''date'', 16, 4)
   \<and> (16 :: size_t) + 4 < MAX_MESSAGE_LENGTH
   \<and> IOTCLIENT_GetProperty sample_extern ''messageId:abc123'' ''messageId'' 64
       = Some ''abc123''
   \<and> length ''abc123'' < 64
   \<and> 256 \<le> BUFSIZ sample_extern
   \<and> popen sample_extern (nul_terminate ''date'' 4) = Some 1
   \<and> fileno sample_extern 1 \<noteq> -1
   \<and> Stream_headers (snd (snd (ProcessMessage sample_extern (Some sample_state) []))) =
       [''source:exec'' @ [CHR 0x0A] @ ''messagetype:cmdresp'' @ [CHR 0x0A]
        @ ''correlationId:abc123'' @ [CHR 0x0A]]"
proof -
  have rx: "IOTCLIENT_Receive sample_extern (hIoTClient sample_state) =
     (EOK, Some ''messageId:abc123'', Some ''date'', 16, 4)"
    by (simp add: sample_extern_def EOK_def)
  have size: "(16 :: size_t) + 4 < MAX_MESSAGE_LENGTH"
    by (simp add: MAX_MESSAGE_LENGTH_def)
  have gp: "IOTCLIENT_GetProperty sample_extern ''messageId:abc123'' ''messageId'' 64
       = Some ''abc123''"
    by (simp add: sample_extern_def)
  have len: "length ''abc123'' < 64" by simp
  have buf: "256 \<le> BUFSIZ sample_extern" by (simp add: sample_extern_def)
  have po: "popen sample_extern (nul_terminate ''date'' 4) = Some 1"
    by (simp add: sample_extern_def nul_terminate_def c_str_def NUL_def)
  have fd: "fileno sample_extern 1 \<noteq> -1" by (simp add: sample_extern_def)
  show ?thesis
    using rx size gp len buf po fd
      ProcessMessage_correlationId [OF rx size gp len buf po fd, of "[]"]
    by (simp add: nl_def)
qed

text \<open>
  C3. When a received message has no header, or a header from which no \<^verbatim>\<open>messageId\<close>
  is extracted, the headers given to \<^verbatim>\<open>IOTCLIENT_Stream\<close> are the two lines
  \<^verbatim>\<open>source:exec\<close> and \<^verbatim>\<open>messagetype:cmdresp\<close> and nothing else: there is no
  \<^verbatim>\<open>correlationId\<close> line. The message is one that reaches the call.
\<close>

theorem ProcessMessage_no_messageId:
  assumes rx: "IOTCLIENT_Receive ext (hIoTClient st) =
                 (EOK, pHeader, Some body, headerLength, bodyLength)"
    and size: "headerLength + bodyLength < MAX_MESSAGE_LENGTH"
    and nomsg: "pHeader = None
                \<or> (\<exists>h. pHeader = Some h
                        \<and> IOTCLIENT_GetProperty ext h ''messageId'' 64 = None)"
    and po: "popen ext (nul_terminate body bodyLength) = Some fp"
    and fd: "fileno ext fp \<noteq> -1"
  shows "Stream_headers (snd (snd (ProcessMessage ext (Some st) stale))) =
           [''source:exec'' @ [nl] @ ''messagetype:cmdresp'']"
proof -
  have "fst (extract_messageId ext pHeader stale) = None"
    using nomsg by (auto simp: extract_messageId_msgId)
  then show ?thesis
    using po fd
    by (simp add: ProcessMessage_received [OF rx] received_message_run [OF refl size]
          ProcessCommand_Stream_headers response_headers_def base_headers_def)
qed

theorem ProcessMessage_no_messageId_witness:
  "IOTCLIENT_Receive scenario_A (hIoTClient sample_state) =
     (EOK, None, Some ''echo hello'', 0, 10)
   \<and> (0 :: size_t) + 10 < MAX_MESSAGE_LENGTH
   \<and> popen scenario_A (nul_terminate ''echo hello'' 10) = Some 1
   \<and> fileno scenario_A 1 \<noteq> -1
   \<and> Stream_headers (snd (snd (ProcessMessage scenario_A (Some sample_state) ''abc123''))) =
       [''source:exec'' @ [CHR 0x0A] @ ''messagetype:cmdresp'']"
proof -
  have rx: "IOTCLIENT_Receive scenario_A (hIoTClient sample_state) =
     (EOK, None, Some ''echo hello'', 0, 10)"
    by (simp add: scenario_A_def sample_extern_def EOK_def)
  have size: "(0 :: size_t) + 10 < MAX_MESSAGE_LENGTH"
    by (simp add: MAX_MESSAGE_LENGTH_def)
  have nomsg: "(None :: string option) = None
      \<or> (\<exists>h. None = Some h \<and> IOTCLIENT_GetProperty scenario_A h ''messageId'' 64 = None)"
    by simp
  have po: "popen scenario_A (nul_terminate ''echo hello'' 10) = Some 1"
    by (simp add: scenario_A_def sample_extern_def nul_terminate_def c_str_def NUL_def)
  have fd: "fileno scenario_A 1 \<noteq> -1" by (simp add: scenario_A_def sample_extern_def)
  show ?thesis
    using rx size po fd
      ProcessMessage_no_messageId [OF rx size nomsg po fd, of "''abc123''"]
    by (simp add: nl_def)
qed

text \<open>
  C4, as stated: the size bound is validated before the \<^verbatim>\<open>messageId\<close> is extracted,
  and extraction is not attempted on a message that fails validation. The code extracts
  first: a message of 16 + 4090 bytes is refused with \<^verbatim>\<open>EMSGSIZE\<close> after
  \<^verbatim>\<open>IOTCLIENT_GetProperty\<close> has been called on its header.
\<close>

theorem extraction_before_validation_counterexample:
  "IOTCLIENT_Receive oversized_with_id (hIoTClient sample_state) =
     (EOK, Some ''messageId:abc123'', Some (replicate 4090 CHR ''x''), 16, 4090)
   \<and> \<not> (16 :: size_t) + 4090 < MAX_MESSAGE_LENGTH
   \<and> fst (ProcessMessage oversized_with_id (Some sample_state) []) = EMSGSIZE
   \<and> GetProperty_calls (snd (snd (ProcessMessage oversized_with_id (Some sample_state) [])))
       = [''messageId:abc123'']"
  by (simp add: ProcessMessage_def received_message_def extract_messageId_def
        oversized_with_id_def sample_extern_def sample_state_def
        received_prints_def report_error_def MAX_MESSAGE_LENGTH_def EOK_def EMSGSIZE_def)

text \<open>
  C4, amended. In every dispatch cycle whose receive succeeds with a header, the
  \<^verbatim>\<open>messageId\<close> extraction is the first call after the receive, whatever the lengths
  are; the size bound is tested after it and before the body is run. A message that
  fails the test has had its extraction attempted, and is not executed.
\<close>

theorem extraction_then_validation:
  assumes rx: "IOTCLIENT_Receive ext (hIoTClient st) =
                 (EOK, Some header, pBody, headerLength, bodyLength)"
  shows "take (Suc (Suc 0)) (filter is_call (snd (snd (ProcessMessage ext (Some st) stale))))
           = [Call_Receive (hIoTClient st), Call_GetProperty header ''messageId'' 64]
       \<and> GetProperty_calls (snd (snd (ProcessMessage ext (Some st) stale))) = [header]
       \<and> (\<not> headerLength + bodyLength < MAX_MESSAGE_LENGTH \<longrightarrow>
            popen_calls (snd (snd (ProcessMessage ext (Some st) stale))) = []
            \<and> fst (ProcessMessage ext (Some st) stale) = EMSGSIZE)"
proof -
  let ?id = "snd (snd (extract_messageId ext (Some header) stale))"
  have first: "\<exists>es. filter is_call ?id = Call_GetProperty header ''messageId'' 64 # es"
    by (simp add: extract_messageId_def split: option.splits)
  have gp: "GetProperty_calls ?id = [header]"
    by (simp add: GetProperty_calls_extract)
  have nogp: "GetProperty_calls (snd (ProcessCommand ext (Some st) c m)) = []" for c m
    by (simp add: ProcessCommand_def Let_def split: option.splits)
  show ?thesis
  proof (cases "pBody = None \<or> \<not> headerLength + bodyLength < MAX_MESSAGE_LENGTH")
    case True
    then show ?thesis
      using first gp
      by (auto simp: ProcessMessage_received [OF rx] received_message_refused)
  next
    case False
    then obtain body where b: "pBody = Some body"
      and size: "headerLength + bodyLength < MAX_MESSAGE_LENGTH"
      by auto
    show ?thesis
      using first gp nogp size
      by (auto simp: ProcessMessage_received [OF rx] received_message_run [OF b size])
  qed
qed

theorem extraction_then_validation_witness:
  "IOTCLIENT_Receive oversized_with_id (hIoTClient sample_state) =
     (EOK, Some ''messageId:abc123'', Some (replicate 4090 CHR ''x''), 16, 4090)
   \<and> \<not> (16 :: size_t) + 4090 < MAX_MESSAGE_LENGTH
   \<and> take (Suc (Suc 0))
       (filter is_call (snd (snd (ProcessMessage oversized_with_id (Some sample_state) []))))
       = [Call_Receive 7, Call_GetProperty ''messageId:abc123'' ''messageId'' 64]
   \<and> popen_calls (snd (snd (ProcessMessage oversized_with_id (Some sample_state) []))) = []
   \<and> fst (ProcessMessage oversized_with_id (Some sample_state) []) = 90"
proof -
  have rx: "IOTCLIENT_Receive oversized_with_id (hIoTClient sample_state) =
     (EOK, Some ''messageId:abc123'', Some (replicate 4090 CHR ''x''), 16, 4090)"
    by (simp add: oversized_with_id_def sample_extern_def EOK_def)
  have big: "\<not> (16 :: size_t) + 4090 < MAX_MESSAGE_LENGTH"
    by (simp add: MAX_MESSAGE_LENGTH_def)
  show ?thesis
    using rx big extraction_then_validation [OF rx, of "[]"]
    by (simp add: sample_state_def EMSGSIZE_def)
qed

text \<open>
  C5. When the subprocess cannot be launched (\<^verbatim>\<open>popen\<close> returns NULL),
  \<^verbatim>\<open>ProcessCommand\<close> returns \<^verbatim>\<open>ENOTSUP\<close> and \<^verbatim>\<open>IOTCLIENT_Stream\<close> is not called:
  no reply is published for that command.
\<close>

theorem ProcessCommand_popen_fails:
  assumes "popen ext c = None"
  shows "fst (ProcessCommand ext (Some st) (Some c) msgId) = ENOTSUP
       \<and> Stream_headers (snd (ProcessCommand ext (Some st) (Some c) msgId)) = []
       \<and> popen_calls (snd (ProcessCommand ext (Some st) (Some c) msgId)) = [c]"
  using assms by (simp add: ProcessCommand_def split: option.splits)

theorem ProcessCommand_popen_fails_witness:
  "popen sample_extern ''/nonexistent'' = None
   \<and> fst (ProcessCommand sample_extern (Some sample_state) (Some ''/nonexistent'')
            (Some ''abc123'')) = 95
   \<and> Stream_headers (snd (ProcessCommand sample_extern (Some sample_state)
            (Some ''/nonexistent'') (Some ''abc123''))) = []"
proof -
  have h: "popen sample_extern ''/nonexistent'' = None"
    by (simp add: sample_extern_def)
  show ?thesis
    using h ProcessCommand_popen_fails [OF h, of sample_state "Some ''abc123''"]
    by (simp add: ENOTSUP_def)
qed

text \<open>
  C6, as stated: the header blob never ends with a newline, with or without a
  \<^verbatim>\<open>correlationId\<close>. With the message identifier \<^verbatim>\<open>abc123\<close> the blob is the
  expansion of \<^verbatim>\<open>"%s\ncorrelationId:%s\n"\<close>, whose last character is a newline.
\<close>

theorem trailing_newline_counterexample:
  "response_headers sample_extern (Some ''abc123'') =
     ''source:exec'' @ [CHR 0x0A] @ ''messagetype:cmdresp'' @ [CHR 0x0A]
     @ ''correlationId:abc123'' @ [CHR 0x0A]
   \<and> last (response_headers sample_extern (Some ''abc123'')) = CHR 0x0A"
  by (simp add: response_headers_def sample_extern_def snprintf_n_def snprintf_result_def
        correlation_format_def base_headers_def INT_MAX_def nl_def)

text \<open>
  C6, amended. The header blob has one \<^verbatim>\<open>key:value\<close> pair per line. Without a
  correlation id, and also with one whose line does not fit the buffer (the expansion, of
  47 characters and the identifier, has \<^verbatim>\<open>BUFSIZ\<close> characters or more, or a length
  that \<^verbatim>\<open>snprintf\<close> cannot return), it is the two lines \<^verbatim>\<open>source:exec\<close> and
  \<^verbatim>\<open>messagetype:cmdresp\<close> with one newline between them and none at the end. With a
  correlation id \<open>X\<close> that fits, so with every \<open>X\<close> shorter than 64 characters when
  \<^verbatim>\<open>BUFSIZ\<close> is at least 256, it is these two lines and the line
  \<^verbatim>\<open>correlationId:X\<close>, each of the three followed by a newline, so that the blob ends
  with a newline. There is no third layout.
\<close>

theorem response_headers_layout:
  "(response_headers ext msgId = ''source:exec'' @ [nl] @ ''messagetype:cmdresp''
      \<and> last (response_headers ext msgId) \<noteq> nl
    \<or> (\<exists>X. msgId = Some X
          \<and> response_headers ext msgId =
              ''source:exec'' @ [nl] @ ''messagetype:cmdresp'' @ [nl]
              @ ''correlationId:'' @ X @ [nl]
          \<and> last (response_headers ext msgId) = nl))
   \<and> (msgId = None \<longrightarrow>
        response_headers ext msgId = ''source:exec'' @ [nl] @ ''messagetype:cmdresp'')
   \<and> (\<forall>X. msgId = Some X \<and> length X < 64 \<and> 256 \<le> BUFSIZ ext \<longrightarrow>
        response_headers ext msgId =
          ''source:exec'' @ [nl] @ ''messagetype:cmdresp'' @ [nl]
          @ ''correlationId:'' @ X @ [nl])
   \<and> (\<forall>X. msgId = Some X \<and> unat (BUFSIZ ext) \<le> 47 + length X \<longrightarrow>
        response_headers ext msgId = ''source:exec'' @ [nl] @ ''messagetype:cmdresp'')
   \<and> (\<forall>X. msgId = Some X \<longrightarrow>
        response_headers ext msgId =
          (if 47 + length X < unat (BUFSIZ ext) \<and> 47 + length X < 2 ^ 31
           then ''source:exec'' @ [nl] @ ''messagetype:cmdresp'' @ [nl]
                @ ''correlationId:'' @ X @ [nl]
           else ''source:exec'' @ [nl] @ ''messagetype:cmdresp''))"
proof -
  have base: "base_headers = ''source:exec'' @ [nl] @ ''messagetype:cmdresp''"
    by (simp add: base_headers_def)
  have base_last: "last base_headers \<noteq> nl"
    by (simp add: base_headers_def nl_def)
  have corr: "correlation_format base_headers X =
      ''source:exec'' @ [nl] @ ''messagetype:cmdresp'' @ [nl]
      @ ''correlationId:'' @ X @ [nl]" for X
    by (simp add: correlation_format_def base_headers_def)
  have corr_last: "last (correlation_format base_headers X) = nl" for X
    by (simp add: correlation_format_def)
  have one: "response_headers ext msgId = ''source:exec'' @ [nl] @ ''messagetype:cmdresp''
      \<and> last (response_headers ext msgId) \<noteq> nl
    \<or> (\<exists>X. msgId = Some X
          \<and> response_headers ext msgId =
              ''source:exec'' @ [nl] @ ''messagetype:cmdresp'' @ [nl]
              @ ''correlationId:'' @ X @ [nl]
          \<and> last (response_headers ext msgId) = nl)"
    using response_headers_cases [of ext msgId] base base_last corr corr_last
    by metis
  have two: "msgId = None \<longrightarrow>
        response_headers ext msgId = ''source:exec'' @ [nl] @ ''messagetype:cmdresp''"
    by (simp add: response_headers_def base)
  have three: "\<forall>X. msgId = Some X \<and> length X < 64 \<and> 256 \<le> BUFSIZ ext \<longrightarrow>
        response_headers ext msgId =
          ''source:exec'' @ [nl] @ ''messagetype:cmdresp'' @ [nl]
          @ ''correlationId:'' @ X @ [nl]"
    using response_headers_fits [of _ ext] corr by metis
  have five: "\<forall>X. msgId = Some X \<longrightarrow>
        response_headers ext msgId =
          (if 47 + length X < unat (BUFSIZ ext) \<and> 47 + length X < 2 ^ 31
           then ''source:exec'' @ [nl] @ ''messagetype:cmdresp'' @ [nl]
                @ ''correlationId:'' @ X @ [nl]
           else ''source:exec'' @ [nl] @ ''messagetype:cmdresp'')"
  proof (intro allI impI)
    fix X assume "msgId = Some X"
    then show "response_headers ext msgId =
          (if 47 + length X < unat (BUFSIZ ext) \<and> 47 + length X < 2 ^ 31
           then ''source:exec'' @ [nl] @ ''messagetype:cmdresp'' @ [nl]
                @ ''correlationId:'' @ X @ [nl]
           else ''source:exec'' @ [nl] @ ''messagetype:cmdresp'')"
      using response_headers_Some [of ext X] corr [of X] base by (simp split: if_splits)
  qed
  have four: "\<forall>X. msgId = Some X \<and> unat (BUFSIZ ext) \<le> 47 + length X \<longrightarrow>
        response_headers ext msgId = ''source:exec'' @ [nl] @ ''messagetype:cmdresp''"
  proof (intro allI impI)
    fix X assume a: "msgId = Some X \<and> unat (BUFSIZ ext) \<le> 47 + length X"
    then have "\<not> 47 + length X < unat (BUFSIZ ext)" by simp
    with a show "response_headers ext msgId =
        ''source:exec'' @ [nl] @ ''messagetype:cmdresp''"
      using response_headers_Some [of ext X] base by simp
  qed
  from one two three four five show ?thesis by blast
qed

text \<open>
  The identifier \<^verbatim>\<open>abc123\<close> under the \<^verbatim>\<open>BUFSIZ\<close> of glibc, no identifier, and an
  identifier of 250 characters under a \<^verbatim>\<open>BUFSIZ\<close> of 256.
\<close>

theorem response_headers_layout_witness:
  "length ''abc123'' < 64 \<and> 256 \<le> BUFSIZ sample_extern
   \<and> unat (BUFSIZ small_buffer) \<le> 47 + length (replicate 250 CHR ''A'')
   \<and> response_headers sample_extern (Some ''abc123'') =
       ''source:exec'' @ [CHR 0x0A] @ ''messagetype:cmdresp'' @ [CHR 0x0A]
       @ ''correlationId:abc123'' @ [CHR 0x0A]
   \<and> response_headers sample_extern None =
       ''source:exec'' @ [CHR 0x0A] @ ''messagetype:cmdresp''
   \<and> response_headers small_buffer (Some (replicate 250 CHR ''A'')) =
       ''source:exec'' @ [CHR 0x0A] @ ''messagetype:cmdresp''"
proof -
  have buf: "256 \<le> BUFSIZ sample_extern" by (simp add: sample_extern_def)
  have over: "unat (BUFSIZ small_buffer) \<le> 47 + length (replicate 250 CHR ''A'')"
    by (simp add: small_buffer_def sample_extern_def)
  have id: "response_headers sample_extern (Some ''abc123'') =
       ''source:exec'' @ [CHR 0x0A] @ ''messagetype:cmdresp'' @ [CHR 0x0A]
       @ ''correlationId:abc123'' @ [CHR 0x0A]"
    using buf response_headers_layout [of sample_extern "Some ''abc123''"]
    by (simp add: nl_def)
  have none: "response_headers sample_extern None =
       ''source:exec'' @ [CHR 0x0A] @ ''messagetype:cmdresp''"
    using response_headers_layout [of sample_extern None] by (simp add: nl_def)
  have long: "response_headers small_buffer (Some (replicate 250 CHR ''A'')) =
       ''source:exec'' @ [CHR 0x0A] @ ''messagetype:cmdresp''"
  proof -
    have "\<forall>X. Some (replicate 250 CHR ''A'') = Some X
             \<and> unat (BUFSIZ small_buffer) \<le> 47 + length X \<longrightarrow>
           response_headers small_buffer (Some (replicate 250 CHR ''A'')) =
             ''source:exec'' @ [nl] @ ''messagetype:cmdresp''"
      using response_headers_layout [of small_buffer "Some (replicate 250 CHR ''A'')"]
      by blast
    with over show ?thesis by (simp add: nl_def)
  qed
  from buf over id none long show ?thesis by simp
qed

text \<open>
  C7. For a correlation id that is present, when the base headers and the
  \<^verbatim>\<open>correlationId\<close> line do not fit \<^verbatim>\<open>buf\<close> (the expansion has \<^verbatim>\<open>BUFSIZ\<close>
  characters or more, so there is no room for it and its NUL), \<^verbatim>\<open>ProcessCommand\<close>
  does what it does without a correlation id: the same result, the same calls in the same
  order, the command given to \<^verbatim>\<open>popen\<close>, and the base headers given to
  \<^verbatim>\<open>IOTCLIENT_Stream\<close> once the command has started with a descriptor.
\<close>

theorem ProcessCommand_headers_overflow:
  assumes "unat (BUFSIZ ext) \<le> length (correlation_format base_headers m)"
  shows "fst (ProcessCommand ext (Some st) (Some c) (Some m)) =
           fst (ProcessCommand ext (Some st) (Some c) None)
       \<and> filter is_call (snd (ProcessCommand ext (Some st) (Some c) (Some m))) =
           filter is_call (snd (ProcessCommand ext (Some st) (Some c) None))
       \<and> popen_calls (snd (ProcessCommand ext (Some st) (Some c) (Some m))) = [c]
       \<and> Stream_headers (snd (ProcessCommand ext (Some st) (Some c) (Some m))) =
           (case popen ext c of
              None \<Rightarrow> []
            | Some fp \<Rightarrow>
                if fileno ext fp = -1 then []
                else [''source:exec'' @ [nl] @ ''messagetype:cmdresp''])"
proof -
  have "response_headers ext (Some m) = base_headers"
    using assms by (rule response_headers_overflow)
  moreover have "response_headers ext None = base_headers"
    by (simp add: response_headers_def)
  ultimately show ?thesis
    by (simp add: ProcessCommand_result ProcessCommand_calls ProcessCommand_popen_calls
          ProcessCommand_Stream_headers base_headers_def split: option.splits)
qed

theorem ProcessCommand_headers_overflow_witness:
  "unat (BUFSIZ small_buffer)
     \<le> length (correlation_format base_headers (replicate 250 CHR ''A''))
   \<and> fst (ProcessCommand small_buffer (Some sample_state) (Some ''date'')
            (Some (replicate 250 CHR ''A''))) = 0
   \<and> popen_calls (snd (ProcessCommand small_buffer (Some sample_state) (Some ''date'')
            (Some (replicate 250 CHR ''A'')))) = [''date'']
   \<and> Stream_headers (snd (ProcessCommand small_buffer (Some sample_state) (Some ''date'')
            (Some (replicate 250 CHR ''A'')))) =
       [''source:exec'' @ [CHR 0x0A] @ ''messagetype:cmdresp'']"
proof -
  have h: "unat (BUFSIZ small_buffer)
     \<le> length (correlation_format base_headers (replicate 250 CHR ''A''))"
    by (simp add: small_buffer_def sample_extern_def length_correlation_format)
  have none: "fst (ProcessCommand small_buffer (Some sample_state) (Some ''date'') None) = 0"
    by (simp add: ProcessCommand_def small_buffer_def sample_extern_def sample_state_def)
  show ?thesis
    using h none
      ProcessCommand_headers_overflow [OF h, of sample_state "''date''"]
    by (simp add: small_buffer_def sample_extern_def nl_def)
qed

text \<open>
  C8. Nothing passes from one cycle to the next. In a run of two cycles the second cycle,
  which starts with \<^verbatim>\<open>rxMsgId\<close> as the first cycle left it, has the result and the
  events of a cycle on the second message alone, started on an empty buffer; and the
  headers of its \<^verbatim>\<open>IOTCLIENT_Stream\<close> call, if it makes one, are built from the
  \<^verbatim>\<open>messageId\<close> of the second message itself, so that a correlation id of the first
  message is on the second reply only if the second message carries it.
\<close>

theorem cycles_share_no_state:
  "(let first = ProcessMessage (w 0) (Some st) stale;
        second = ProcessMessage (w (Suc 0)) (Some st) (fst (snd first))
    in cycles (Suc (Suc 0)) w 0 st stale = snd (snd first) @ snd (snd second)
       \<and> fst second = fst (ProcessMessage (w (Suc 0)) (Some st) [])
       \<and> snd (snd second) = snd (snd (ProcessMessage (w (Suc 0)) (Some st) []))
       \<and> (Stream_headers (snd (snd second)) = []
          \<or> Stream_headers (snd (snd second)) =
              [response_headers (w (Suc 0)) (own_messageId (w (Suc 0)) st)]))"
proof -
  let ?first = "ProcessMessage (w 0) (Some st) stale"
  let ?second = "ProcessMessage (w (Suc 0)) (Some st) (fst (snd ?first))"
  have run: "cycles (Suc (Suc 0)) w 0 st stale = snd (snd ?first) @ snd (snd ?second)"
    by (simp only: cycles_Suc cycles.simps) simp
  have same: "fst ?second = fst (ProcessMessage (w (Suc 0)) (Some st) [])
      \<and> snd (snd ?second) = snd (snd (ProcessMessage (w (Suc 0)) (Some st) []))"
    by (rule ProcessMessage_stale)
  have own: "Stream_headers (snd (snd ?second)) = []
      \<or> Stream_headers (snd (snd ?second)) =
          [response_headers (w (Suc 0)) (own_messageId (w (Suc 0)) st)]"
    by (rule ProcessMessage_Stream_headers_own)
  from run same own show ?thesis by (simp add: Let_def)
qed

theorem cycles_share_no_state_witness:
  "fst (snd (ProcessMessage (B_then_A 0) (Some sample_state) [])) = ''abc123''
   \<and> Stream_headers (snd (snd (ProcessMessage (B_then_A 0) (Some sample_state) []))) =
       [''source:exec'' @ [CHR 0x0A] @ ''messagetype:cmdresp'' @ [CHR 0x0A]
        @ ''correlationId:abc123'' @ [CHR 0x0A]]
   \<and> Stream_headers (snd (snd (ProcessMessage (B_then_A (Suc 0)) (Some sample_state)
        (fst (snd (ProcessMessage (B_then_A 0) (Some sample_state) [])))))) =
       [''source:exec'' @ [CHR 0x0A] @ ''messagetype:cmdresp'']"
proof -
  have first: "ProcessMessage (B_then_A 0) (Some sample_state) [] =
      ProcessMessage sample_extern (Some sample_state) []"
    by (simp add: B_then_A_def)
  have id: "fst (snd (ProcessMessage sample_extern (Some sample_state) [])) = ''abc123''"
    by (simp add: ProcessMessage_def received_message_def extract_messageId_def
          ProcessCommand_def Let_def sample_extern_def sample_state_def EOK_def
          MAX_MESSAGE_LENGTH_def nul_terminate_def c_str_def NUL_def)
  have hs: "Stream_headers (snd (snd (ProcessMessage sample_extern (Some sample_state) [])))
      = [''source:exec'' @ [CHR 0x0A] @ ''messagetype:cmdresp'' @ [CHR 0x0A]
         @ ''correlationId:abc123'' @ [CHR 0x0A]]"
    by (simp add: ProcessMessage_def received_message_def extract_messageId_def
          ProcessCommand_def Let_def sample_extern_def sample_state_def EOK_def
          MAX_MESSAGE_LENGTH_def nul_terminate_def c_str_def NUL_def
          received_prints_def report_error_def response_headers_def snprintf_n_def
          snprintf_result_def correlation_format_def base_headers_def INT_MAX_def nl_def)
  have fresh: "Stream_headers (snd (snd (ProcessMessage scenario_A (Some sample_state) [])))
      = [''source:exec'' @ [CHR 0x0A] @ ''messagetype:cmdresp'']"
    by (simp add: ProcessMessage_def received_message_def extract_messageId_def
          ProcessCommand_def Let_def scenario_A_def sample_extern_def sample_state_def
          EOK_def MAX_MESSAGE_LENGTH_def nul_terminate_def c_str_def NUL_def
          received_prints_def report_error_def response_headers_def base_headers_def
          nl_def)
  have second: "B_then_A (Suc 0) = scenario_A" by (simp add: B_then_A_def)
  show ?thesis
    using first id hs fresh second
      cycles_share_no_state [of B_then_A sample_state "[]"]
    by (simp add: Let_def)
qed

text \<open>
  C9. The dispatch loop does not return and every iteration receives: with a state
  pointer that is not NULL, \<^verbatim>\<open>ProcessMessages\<close> has no result whatever number of
  iterations it is given; in these iterations it has called \<^verbatim>\<open>IOTCLIENT_Receive\<close>
  once per iteration, whatever the receives, the size tests, the commands and the
  streams gave; and the next iteration is a whole cycle on the next message, which begins
  with the receive.
\<close>

theorem ProcessMessages_never_returns:
  "fst (ProcessMessages fuel w (Some st) stale) = None
   \<and> Receive_calls (snd (ProcessMessages fuel w (Some st) stale)) = fuel
   \<and> snd (ProcessMessages (Suc fuel) w (Some st) stale) =
       snd (ProcessMessages fuel w (Some st) stale)
       @ snd (snd (ProcessMessage (w fuel) (Some st) []))
   \<and> hd (snd (snd (ProcessMessage (w fuel) (Some st) []))) = Call_Receive (hIoTClient st)"
  using cycles_snoc [of fuel w 0 st stale]
  by (simp add: ProcessMessages_def cycles_Receive_calls ProcessMessage_hd)

theorem ProcessMessages_never_returns_witness:
  "fst (ProcessMessage (D_then_A 0) (Some sample_state) []) = 90
   \<and> fst (ProcessMessages 2 D_then_A (Some sample_state) []) = None
   \<and> Receive_calls (snd (ProcessMessages 2 D_then_A (Some sample_state) [])) = 2"
proof -
  have "fst (ProcessMessage (D_then_A 0) (Some sample_state) []) = 90"
    by (simp add: D_then_A_def ProcessMessage_def received_message_def
          extract_messageId_def scenario_D_def sample_extern_def sample_state_def
          EOK_def EMSGSIZE_def MAX_MESSAGE_LENGTH_def split: prod.splits)
  then show ?thesis
    using ProcessMessages_never_returns [of 2 D_then_A sample_state "[]"]
    by simp
qed

text \<open>
  C10. A successful receive whose body pointer is NULL gives \<^verbatim>\<open>EMSGSIZE\<close>, which is
  not \<^verbatim>\<open>EINVAL\<close>, and nothing is executed, whatever the two lengths are, so also when
  their sum is below \<^verbatim>\<open>MAX_MESSAGE_LENGTH\<close>.
\<close>

theorem ProcessMessage_null_body:
  assumes "IOTCLIENT_Receive ext (hIoTClient st) =
             (EOK, pHeader, None, headerLength, bodyLength)"
  shows "fst (ProcessMessage ext (Some st) stale) = EMSGSIZE
       \<and> fst (ProcessMessage ext (Some st) stale) \<noteq> EINVAL
       \<and> popen_calls (snd (snd (ProcessMessage ext (Some st) stale))) = []
       \<and> Stream_headers (snd (snd (ProcessMessage ext (Some st) stale))) = []"
  by (simp add: ProcessMessage_received [OF assms] received_message_refused
        EMSGSIZE_def EINVAL_def)

theorem ProcessMessage_null_body_witness:
  "IOTCLIENT_Receive null_body (hIoTClient sample_state) =
     (EOK, Some ''messageId:abc123'', None, 16, 0)
   \<and> (16 :: size_t) + 0 < MAX_MESSAGE_LENGTH
   \<and> fst (ProcessMessage null_body (Some sample_state) []) = 90
   \<and> popen_calls (snd (snd (ProcessMessage null_body (Some sample_state) []))) = []
   \<and> Stream_headers (snd (snd (ProcessMessage null_body (Some sample_state) []))) = []"
proof -
  have rx: "IOTCLIENT_Receive null_body (hIoTClient sample_state) =
     (EOK, Some ''messageId:abc123'', None, 16, 0)"
    by (simp add: null_body_def sample_extern_def EOK_def)
  show ?thesis
    using rx ProcessMessage_null_body [OF rx, of "[]"]
    by (simp add: EMSGSIZE_def MAX_MESSAGE_LENGTH_def)
qed

end
